theory Spec2Isabelle
  imports Complex_Main "HOL-Library.Word"
begin

section \<open>JavaScript values\<close>

text \<open>
  A JavaScript string is a sequence of 16-bit code units; \<open>trim\<close>, \<open>===\<close> and the
  template literals of the source work on code units. ASCII literals are written with
  \<open>ascii\<close>; the Chinese literals of the source are given by their code units.
\<close>

type_synonym jsstring = "16 word list"

definition ascii :: "string \<Rightarrow> jsstring" where
  "ascii s = map of_char s"

text \<open>
  The numbers of the model are the safe integers (\<open>Number.isSafeInteger\<close>): a double holds
  each of them exactly and prints it in decimal digits. Fractions and larger magnitudes
  are not values of the model.
\<close>

typedef safe_integer = "{i :: int. \<bar>i\<bar> < 2 ^ 53}"
  by (rule exI [of _ 0]) simp

text \<open>
  Values of type \<open>any\<close> / \<open>unknown\<close>: the data that crosses the \<open>invoke\<close> boundary
  (\<open>undefined\<close>, \<open>null\<close>, booleans, numbers, strings, arrays and plain objects). An
  object lists its own properties in order, with distinct keys; it has no other
  properties than those that \<open>Object.prototype\<close> gives it, and since no value of the
  model is a function, an own property is never callable.
\<close>

datatype jsval =
    JUndefined
  | JNull
  | JBool bool
  | JNum safe_integer
  | JStr jsstring
  | JArr "jsval list"
  | JObj "(jsstring \<times> jsval) list"

type_synonym js_record = "(jsstring \<times> jsval) list"

text \<open>
  What can be thrown, or a promise be rejected with: any value of the model, an \<open>Error\<close>
  instance with its message, or one of the two \<open>TypeError\<close>s the runtime raises in this
  code.
\<close>

datatype fault =
    Not_primitive   \<comment> \<open>an object could not be converted to a primitive value\<close>
  | Nullish_read    \<comment> \<open>a property of \<open>null\<close> or \<open>undefined\<close> was read\<close>

datatype thrown =
    Thrown jsval
  | Error_object jsstring
  | TypeError fault

text \<open>\<open>Number.prototype.toString\<close> on a safe integer: decimal digits.\<close>

fun show_nat :: "nat \<Rightarrow> jsstring" where
  "show_nat n =
     (if n < 10 then [of_nat (48 + n)]
      else show_nat (n div 10) @ [of_nat (48 + n mod 10)])"

definition show_int :: "int \<Rightarrow> jsstring" where
  "show_int i = (if i < 0 then ascii ''-'' @ show_nat (nat (- i)) else show_nat (nat i))"

fun join_comma :: "jsstring list \<Rightarrow> jsstring" where
  "join_comma [] = []"
| "join_comma [s] = s"
| "join_comma (s # t # ss) = s @ ascii '','' @ join_comma (t # ss)"

text \<open>
  The conversion a template literal \<open>`${v}`\<close> applies to \<open>v\<close>. An array is joined
  (\<open>Array.prototype.join\<close>: \<open>undefined\<close> and \<open>null\<close> elements give the empty string,
  the others are converted in order). An object is converted by its \<open>toString\<close>: the
  inherited one gives \<open>[object Object]\<close>; an own property of that name is not callable,
  the inherited \<open>valueOf\<close> returns the object itself, and the conversion throws a
  \<open>TypeError\<close>.
\<close>

fun ToString :: "jsval \<Rightarrow> thrown + jsstring"
  and ToString_elements :: "jsval list \<Rightarrow> thrown + jsstring list" where
  "ToString JUndefined = Inr (ascii ''undefined'')"
| "ToString JNull = Inr (ascii ''null'')"
| "ToString (JBool b) = Inr (if b then ascii ''true'' else ascii ''false'')"
| "ToString (JNum n) = Inr (show_int (Rep_safe_integer n))"
| "ToString (JStr s) = Inr s"
| "ToString (JArr xs) =
     (case ToString_elements xs of Inl e \<Rightarrow> Inl e | Inr ss \<Rightarrow> Inr (join_comma ss))"
| "ToString (JObj kv) =
     (if ascii ''toString'' \<in> set (map fst kv) then Inl (TypeError Not_primitive)
      else Inr (ascii ''[object Object]''))"
| "ToString_elements [] = Inr []"
| "ToString_elements (x # xs) =
     (case (if x = JUndefined \<or> x = JNull then Inr [] else ToString x) of
        Inl e \<Rightarrow> Inl e
      | Inr s \<Rightarrow>
          (case ToString_elements xs of Inl e \<Rightarrow> Inl e | Inr ss \<Rightarrow> Inr (s # ss)))"

text \<open>
  A template literal with one substitution, \<open>`pre${v}post`\<close>, as the value an async
  function returns: it resolves to the text, or is rejected with what the conversion
  throws.
\<close>

definition template :: "jsstring \<Rightarrow> jsval \<Rightarrow> jsstring \<Rightarrow> thrown + jsval" where
  "template pre v post =
     (case ToString v of Inl e \<Rightarrow> Inl e | Inr s \<Rightarrow> Inr (JStr (pre @ s @ post)))"

text \<open>\<open>args?.k\<close> on \<open>args?: Record<string, unknown>\<close>.\<close>

definition get_prop :: "js_record option \<Rightarrow> jsstring \<Rightarrow> jsval" where
  "get_prop args k =
     (case args of
        None \<Rightarrow> JUndefined
      | Some kv \<Rightarrow> (case map_of kv k of None \<Rightarrow> JUndefined | Some v \<Rightarrow> v))"

text \<open>\<open>a || d\<close> on a string that may be undefined: the empty string is falsy too.\<close>

definition or_else :: "jsstring option \<Rightarrow> jsstring \<Rightarrow> jsstring" where
  "or_else a d = (case a of None \<Rightarrow> d | Some s \<Rightarrow> if s = [] then d else s)"

text \<open>\<open>String.prototype.trim\<close>: strips WhiteSpace and LineTerminator code units.\<close>

definition is_whitespace :: "16 word \<Rightarrow> bool" where
  "is_whitespace c \<longleftrightarrow>
     c \<in> set [0x0009, 0x000A, 0x000B, 0x000C, 0x000D, 0x0020, 0x00A0, 0x1680,
              0x2028, 0x2029, 0x202F, 0x205F, 0x3000, 0xFEFF]
     \<or> (0x2000 \<le> c \<and> c \<le> 0x200A)"

definition trim :: "jsstring \<Rightarrow> jsstring" where
  "trim s = rev (dropWhile is_whitespace (rev (dropWhile is_whitespace s)))"

text \<open>
  \<open>(error as Error).message\<close> on a caught value; the cast does nothing at run time.
  Reading a property of \<open>null\<close> or \<open>undefined\<close> throws; a plain object gives its own
  \<open>message\<close> property; a string, number, boolean or array has none. The message of a
  \<open>TypeError\<close> the runtime raised is worded by the engine: \<open>engine\<close> gives the wording.
\<close>

definition get_message :: "(fault \<Rightarrow> jsstring) \<Rightarrow> thrown \<Rightarrow> thrown + jsval" where
  "get_message engine error =
     (case error of
        Thrown v \<Rightarrow>
          (case v of
             JUndefined \<Rightarrow> Inl (TypeError Nullish_read)
           | JNull \<Rightarrow> Inl (TypeError Nullish_read)
           | JObj kv \<Rightarrow>
               Inr (case map_of kv (ascii ''message'') of None \<Rightarrow> JUndefined | Some m \<Rightarrow> m)
           | _ \<Rightarrow> Inr JUndefined)
      | Error_object m \<Rightarrow> Inr (JStr m)
      | TypeError f \<Rightarrow> Inr (JStr (engine f)))"

text \<open>\<open>`${(error as Error).message}`\<close>: the read, then the conversion.\<close>

definition message_text :: "(fault \<Rightarrow> jsstring) \<Rightarrow> thrown \<Rightarrow> thrown + jsstring" where
  "message_text engine error =
     (case get_message engine error of Inl e \<Rightarrow> Inl e | Inr m \<Rightarrow> ToString m)"

text \<open>The three shapes of console output in the source.\<close>

datatype log_entry =
    Log jsstring "js_record option"   \<comment> \<open>\<open>console.log(text, args)\<close>\<close>
  | LogText jsstring                  \<comment> \<open>\<open>console.log(text)\<close>\<close>
  | LogError jsstring thrown          \<comment> \<open>\<open>console.error(text, error)\<close>\<close>

text \<open>
  What one call of \<open>invoke(command, args)\<close> does as far as the caller can see: the
  console lines it writes, and the value the promise resolves to (\<open>Inr\<close>) or is
  rejected with (\<open>Inl\<close>).
\<close>

type_synonym outcome = "thrown + jsval"
type_synonym invoke_fn = "jsstring \<Rightarrow> js_record option \<Rightarrow> log_entry list \<times> outcome"

section \<open>The mock backend (mock-tauri.ts)\<close>

definition file_reader :: jsval where
  "file_reader = JObj
     [(ascii ''name'', JStr (ascii ''file_reader'')),
      (ascii ''description'',
         JStr [0x8BFB, 0x53D6, 0x672C, 0x5730, 0x6587, 0x4EF6, 0x5185, 0x5BB9]),
      (ascii ''input_schema'', JObj
         [(ascii ''type'', JStr (ascii ''object'')),
          (ascii ''properties'', JObj
             [(ascii ''path'', JObj
                 [(ascii ''type'', JStr (ascii ''string'')),
                  (ascii ''description'', JStr [0x6587, 0x4EF6, 0x8DEF, 0x5F84])])]),
          (ascii ''required'', JArr [JStr (ascii ''path'')])])]"

definition shell_executor :: jsval where
  "shell_executor = JObj
     [(ascii ''name'', JStr (ascii ''shell_executor'')),
      (ascii ''description'',
         JStr ([0x5728, 0x672C, 0x5730, 0x6267, 0x884C] @ ascii ''shell'' @ [0x547D, 0x4EE4])),
      (ascii ''input_schema'', JObj
         [(ascii ''type'', JStr (ascii ''object'')),
          (ascii ''properties'', JObj
             [(ascii ''command'', JObj
                 [(ascii ''type'', JStr (ascii ''string'')),
                  (ascii ''description'',
                     JStr [0x8981, 0x6267, 0x884C, 0x7684, 0x547D, 0x4EE4])])]),
          (ascii ''required'', JArr [JStr (ascii ''command'')])])]"

definition FileInfo :: "jsstring \<Rightarrow> jsstring \<Rightarrow> jsstring \<Rightarrow> int \<Rightarrow> jsval" where
  "FileInfo i n p sz =
     JObj [(ascii ''id'', JStr i), (ascii ''name'', JStr n), (ascii ''path'', JStr p),
           (ascii ''size'', JNum (Abs_safe_integer sz))]"

definition mock_files :: "jsval list" where
  "mock_files =
     [FileInfo (ascii ''1'') (ascii ''example.txt'') (ascii ''/home/user/example.txt'') 1024,
      FileInfo (ascii ''2'') (ascii ''document.pdf'')
        (ascii ''/home/user/documents/document.pdf'') 2048]"

text \<open>
  \<open>invoke\<close> of mock-tauri.ts. \<open>random\<close> is the value \<open>Math.random()\<close> returns in the
  \<open>process_user_message\<close> case, a number in \<open>[0, 1)\<close>; a double is a rational, and a
  double exceeds the double \<open>0.7\<close> exactly when it exceeds \<open>7/10\<close>. The function is
  async: a template literal that throws rejects the promise.
\<close>

definition invoke :: "rat \<Rightarrow> invoke_fn" where
  "invoke random command args =
     ([Log (ascii ''Mock Tauri invoke: '' @ command) args],
      if command = ascii ''greet'' then
        template (ascii ''Hello, '') (get_prop args (ascii ''name''))
          (ascii ''! You'' @ [0x0027] @ ascii ''ve been greeted from Mock Rust!'')
      else if command = ascii ''init_mcp'' then
        Inr (JStr (ascii ''MCP initialized successfully''))
      else if command = ascii ''list_mcp_tools'' then
        Inr (JArr [file_reader, shell_executor])
      else if command = ascii ''process_user_message'' then
        (if random > 7 / 10 then Inr (JStr (ascii ''PENDING_APPROVAL''))
         else template (ascii ''Processed message: '' @ [0x0022])
                (get_prop args (ascii ''message'')) [0x0022])
      else if command = ascii ''approve_tool_call'' then
        template (ascii ''Tool call '') (get_prop args (ascii ''toolName''))
          (ascii '' approved and executed'')
      else if command = ascii ''search_local_files'' then
        Inr (JArr mock_files)
      else if command = ascii ''refresh_file_index'' then
        Inr (JStr (ascii ''File index refreshed successfully''))
      else
        Inr (JStr (ascii ''Mock response for command: '' @ command)))"

section \<open>The application state (App component)\<close>

datatype role = User | Assistant

record Message =
  id_msg :: jsstring
  content :: jsstring
  role :: role
  timestamp :: int

datatype status = Pending | Executing | Completed | Failed

record OperationPreview =
  id_op :: jsstring
  title :: jsstring
  description_op :: jsstring
  status :: status

record PendingApproval =
  id_pa :: jsstring
  toolName :: jsstring
  arguments :: jsval
  description :: jsstring

text \<open>The six \<open>useState\<close> cells of the component.\<close>

record App =
  messages :: "Message list"
  inputValue :: jsstring
  isLoading :: bool
  operationPreviews :: "OperationPreview list"
  pendingApproval :: "PendingApproval option"
  mcpServers :: "jsstring list"

text \<open>The initial values; \<open>date\<close> is the \<open>new Date()\<close> of the greeting.\<close>

definition App_initial :: "int \<Rightarrow> App" where
  "App_initial date =
     \<lparr>messages =
        [\<lparr>id_msg = ascii ''1'',
          content = [0x4F60, 0x597D, 0xFF01, 0x6211, 0x662F] @ ascii ''Local Pilot''
            @ [0x52A9, 0x624B, 0xFF0C, 0x6211, 0x53EF, 0x4EE5, 0x5E2E, 0x52A9, 0x4F60, 0x4E0E,
               0x672C, 0x5730, 0x7CFB, 0x7EDF, 0x4EA4, 0x4E92, 0x3002],
          role = Assistant, timestamp = date\<rparr>],
      inputValue = [],
      isLoading = False,
      operationPreviews =
        [\<lparr>id_op = ascii ''op1'', title = [0x6587, 0x4EF6, 0x8BFB, 0x53D6],
          description_op = [0x8BFB, 0x53D6, 0x672C, 0x5730, 0x6587, 0x4EF6, 0x5185, 0x5BB9],
          status = Pending\<rparr>,
         \<lparr>id_op = ascii ''op2'', title = [0x547D, 0x4EE4, 0x6267, 0x884C],
          description_op = [0x6267, 0x884C, 0x672C, 0x5730] @ ascii ''shell'' @ [0x547D, 0x4EE4],
          status = Pending\<rparr>],
      pendingApproval = None,
      mcpServers = [ascii ''Filesystem'', ascii ''SQLite'']\<rparr>"

text \<open>The \<open>onChange\<close> of the input field: \<open>setInputValue(e.target.value)\<close>.\<close>

definition setInputValue :: "jsstring \<Rightarrow> App \<Rightarrow> App" where
  "setInputValue v s = s\<lparr>inputValue := v\<rparr>"

definition updateOperationStatus :: "jsstring \<Rightarrow> status \<Rightarrow> App \<Rightarrow> App" where
  "updateOperationStatus i st s =
     s\<lparr>operationPreviews :=
         map (\<lambda>op. if id_op op = i then op\<lparr>status := st\<rparr> else op) (operationPreviews s)\<rparr>"

text \<open>
  \<open>if (operationPreviews.length > 0) updateOperationStatus(operationPreviews[0].id, st)\<close>,
  where \<open>ops\<close> is the \<open>operationPreviews\<close> the handler closed over.
\<close>

definition update_first :: "OperationPreview list \<Rightarrow> status \<Rightarrow> App \<Rightarrow> App" where
  "update_first ops st s =
     (case ops of [] \<Rightarrow> s | op # _ \<Rightarrow> updateOperationStatus (id_op op) st s)"

text \<open>
  What a handler does besides updating the state, in order: \<open>e.preventDefault()\<close>, a
  call of \<open>invoke\<close>, a console line, and last, when an error leaves the handler, the
  value it throws (an async handler's promise is rejected with it).
\<close>

datatype effect =
    PreventDefault
  | Invoke jsstring "js_record option"
  | Console log_entry
  | Throw thrown

definition invocations :: "effect list \<Rightarrow> (jsstring \<times> js_record option) list" where
  "invocations es = concat (map (\<lambda>e. case e of Invoke c a \<Rightarrow> [(c, a)] | _ \<Rightarrow> []) es)"

definition console :: "effect list \<Rightarrow> log_entry list" where
  "console es = concat (map (\<lambda>e. case e of Console l \<Rightarrow> [l] | _ \<Rightarrow> []) es)"

definition escaped :: "effect list \<Rightarrow> thrown list" where
  "escaped es = concat (map (\<lambda>e. case e of Throw t \<Rightarrow> [t] | _ \<Rightarrow> []) es)"

text \<open>
  An async handler runs up to its \<open>await invoke(...)\<close>, is suspended, and goes on when
  the promise settles. Each is given in these two halves and as the whole run with
  nothing in between. The second half sees the current state through the functional
  updates (\<open>setMessages(prev => ...)\<close>) and the values it closed over when it was called
  (\<open>operationPreviews\<close>) as they were then. \<open>now\<close> is the reading of \<open>Date.now()\<close>
  and \<open>date\<close> the one of \<open>new Date()\<close> that go into the message or request the half
  creates, both in milliseconds; a time value is a safe integer (at most
  \<open>8.64 * 10^15\<close> in magnitude), so \<open>toString\<close> prints its decimal digits.
\<close>

subsection \<open>handleApproveOperation\<close>

text \<open>
  The call it makes, if any. \<open>stringify\<close> is the platform's \<open>JSON.stringify\<close>.
\<close>

definition handleApproveOperation_request ::
  "(jsval \<Rightarrow> jsval) \<Rightarrow> App \<Rightarrow> (jsstring \<times> js_record option) option" where
  "handleApproveOperation_request stringify s =
     (case pendingApproval s of
        None \<Rightarrow> None
      | Some pa \<Rightarrow>
          Some (ascii ''approve_tool_call'',
                Some [(ascii ''toolName'', JStr (toolName pa)),
                      (ascii ''arguments'', stringify (arguments pa))]))"

text \<open>
  The \<open>catch\<close> block: the console line, then the error notice. Building the notice
  reads \<open>.message\<close> and converts it; when that throws, nothing has been updated yet and
  the error leaves the handler.
\<close>

definition handleApproveOperation_catch ::
  "(fault \<Rightarrow> jsstring) \<Rightarrow> int \<Rightarrow> int \<Rightarrow> OperationPreview list \<Rightarrow> thrown \<Rightarrow> App
     \<Rightarrow> App \<times> effect list" where
  "handleApproveOperation_catch engine now date ops error s =
     (case message_text engine error of
        Inl e \<Rightarrow> (s, [Console (LogError (ascii ''Error approving operation:'') error), Throw e])
      | Inr text \<Rightarrow>
          (let errorMessage =
                 \<lparr>id_msg = show_int now,
                  content = [0x6279, 0x51C6, 0x64CD, 0x4F5C, 0x5931, 0x8D25, 0x003A, 0x0020]
                    @ text,
                  role = Assistant, timestamp = date\<rparr>
           in (update_first ops Failed (s\<lparr>messages := messages s @ [errorMessage]\<rparr>),
               [Console (LogError (ascii ''Error approving operation:'') error)])))"

text \<open>
  The second half: the rest of the \<open>try\<close> body, and the \<open>catch\<close> block for a rejected
  call or for the result's conversion throwing (\<open>`${result}`\<close>, before any update).
\<close>

definition handleApproveOperation_settle ::
  "(fault \<Rightarrow> jsstring) \<Rightarrow> int \<Rightarrow> int \<Rightarrow> OperationPreview list \<Rightarrow> outcome \<Rightarrow> App
     \<Rightarrow> App \<times> effect list" where
  "handleApproveOperation_settle engine now date ops out s =
     (case out of
        Inr result \<Rightarrow>
          (case ToString result of
             Inr text \<Rightarrow>
               (let resultMessage =
                      \<lparr>id_msg = show_int now,
                       content = [0x64CD, 0x4F5C, 0x7ED3, 0x679C, 0x003A, 0x0020] @ text,
                       role = Assistant, timestamp = date\<rparr>
                in (update_first ops Completed
                      (s\<lparr>messages := messages s @ [resultMessage], pendingApproval := None\<rparr>),
                    []))
           | Inl error \<Rightarrow> handleApproveOperation_catch engine now date ops error s)
      | Inl error \<Rightarrow> handleApproveOperation_catch engine now date ops error s)"

definition handleApproveOperation ::
  "(fault \<Rightarrow> jsstring) \<Rightarrow> (jsval \<Rightarrow> jsval) \<Rightarrow> invoke_fn \<Rightarrow> int \<Rightarrow> int \<Rightarrow> App
     \<Rightarrow> App \<times> effect list" where
  "handleApproveOperation engine stringify api now date s =
     (case handleApproveOperation_request stringify s of
        None \<Rightarrow> (s, [])
      | Some (command, args) \<Rightarrow>
          (let (logs, out) = api command args;
               (s', effs) =
                 handleApproveOperation_settle engine now date (operationPreviews s) out s
           in (s', Invoke command args # map Console logs @ effs)))"

subsection \<open>handleRejectOperation\<close>

definition handleRejectOperation :: "int \<Rightarrow> int \<Rightarrow> App \<Rightarrow> App \<times> effect list" where
  "handleRejectOperation now date s =
     (let rejectMessage =
            \<lparr>id_msg = show_int now,
             content = [0x64CD, 0x4F5C, 0x5DF2, 0x62D2, 0x7EDD, 0x003A, 0x0020]
               @ or_else (map_option description (pendingApproval s))
                   [0x672A, 0x77E5, 0x64CD, 0x4F5C],
             role = Assistant, timestamp = date\<rparr>
      in (update_first (operationPreviews s) Failed
            (s\<lparr>messages := messages s @ [rejectMessage], pendingApproval := None\<rparr>),
          []))"

subsection \<open>handleSubmit\<close>

text \<open>
  The first half, up to the \<open>await\<close>: \<open>None\<close> when the guard returns at once.
\<close>

definition handleSubmit_start :: "int \<Rightarrow> int \<Rightarrow> App \<Rightarrow> App option" where
  "handleSubmit_start now date s =
     (if trim (inputValue s) = [] \<or> isLoading s then None
      else
        (let userMessage =
               \<lparr>id_msg = show_int now, content = inputValue s, role = User, timestamp = date\<rparr>
         in Some (update_first (operationPreviews s) Executing
                    (s\<lparr>messages := messages s @ [userMessage],
                       inputValue := [],
                       isLoading := True\<rparr>))))"

text \<open>
  The call it awaits. \<open>env\<close> is \<open>process.env\<close>, taken to be defined: a variable
  that is not set reads as \<open>None\<close>.
\<close>

definition handleSubmit_request ::
  "(jsstring \<Rightarrow> jsstring option) \<Rightarrow> App \<Rightarrow> jsstring \<times> js_record option" where
  "handleSubmit_request env s =
     (ascii ''process_user_message'',
      Some [(ascii ''message'', JStr (inputValue s)),
            (ascii ''apiKey'', JStr (or_else (env (ascii ''ANTHROPIC_API_KEY'')) [])),
            (ascii ''apiBase'',
               JStr (or_else (env (ascii ''API_BASE'')) (ascii ''https://api.anthropic.com''))),
            (ascii ''modelName'',
               JStr (or_else (env (ascii ''MODEL_NAME''))
                       (ascii ''claude-3-5-sonnet-20241022'')))])"

text \<open>
  The second half: the \<open>try\<close> body after the \<open>await\<close>, \<open>catch\<close> and \<open>finally\<close>. When
  building the error notice throws, \<open>finally\<close> still runs and the error then leaves the
  handler.
\<close>

definition handleSubmit_settle ::
  "(fault \<Rightarrow> jsstring) \<Rightarrow> int \<Rightarrow> int \<Rightarrow> OperationPreview list \<Rightarrow> outcome \<Rightarrow> App
     \<Rightarrow> App \<times> effect list" where
  "handleSubmit_settle engine now date ops out s =
     (let (s', effs) =
            (case out of
               Inr result \<Rightarrow>
                 if result = JStr (ascii ''PENDING_APPROVAL'') then
                   (s\<lparr>pendingApproval := Some
                        \<lparr>id_pa = show_int now,
                         toolName = ascii ''dangerous_operation'',
                         arguments = JObj [(ascii ''path'', JStr (ascii ''/example/path''))],
                         description =
                           [0x6267, 0x884C, 0x6F5C, 0x5728, 0x5371, 0x9669, 0x64CD, 0x4F5C,
                            0x003A, 0x0020, 0x5220, 0x9664, 0x0020] @ ascii ''/example/path''\<rparr>\<rparr>,
                    [])
                 else
                   (let aiMessage =
                          \<lparr>id_msg = show_int (now + 1),
                           content = ascii ''AI'' @ [0x56DE, 0x590D, 0x003A, 0x0020]
                             @ (case result of
                                  JStr r \<Rightarrow> r
                                | _ \<Rightarrow> [0x64CD, 0x4F5C, 0x5DF2, 0x5B8C, 0x6210]),
                           role = Assistant, timestamp = date\<rparr>
                    in (update_first ops Completed (s\<lparr>messages := messages s @ [aiMessage]\<rparr>),
                        []))
             | Inl error \<Rightarrow>
                 (case message_text engine error of
                    Inl e \<Rightarrow>
                      (s, [Console (LogError (ascii ''Error processing message:'') error),
                           Throw e])
                  | Inr text \<Rightarrow>
                      (let errorMessage =
                             \<lparr>id_msg = show_int (now + 1),
                              content = [0x9519, 0x8BEF, 0x003A, 0x0020] @ text,
                              role = Assistant, timestamp = date\<rparr>
                       in (update_first ops Failed
                             (s\<lparr>messages := messages s @ [errorMessage]\<rparr>),
                           [Console (LogError (ascii ''Error processing message:'') error)]))))
      in (s'\<lparr>isLoading := False\<rparr>, effs))"

text \<open>
  The whole run: \<open>now\<close>, \<open>date\<close> are read before the call and \<open>now'\<close>, \<open>date'\<close>
  after it.
\<close>

definition handleSubmit ::
  "(fault \<Rightarrow> jsstring) \<Rightarrow> (jsstring \<Rightarrow> jsstring option) \<Rightarrow> invoke_fn
     \<Rightarrow> int \<Rightarrow> int \<Rightarrow> int \<Rightarrow> int \<Rightarrow> App \<Rightarrow> App \<times> effect list" where
  "handleSubmit engine env api now date now' date' s =
     (case handleSubmit_start now date s of
        None \<Rightarrow> (s, [PreventDefault])
      | Some s1 \<Rightarrow>
          (let (command, args) = handleSubmit_request env s;
               (logs, out) = api command args;
               (s2, effs) = handleSubmit_settle engine now' date' (operationPreviews s) out s1
           in (s2, PreventDefault # Invoke command args # map Console logs @ effs)))"

subsection \<open>initMcp\<close>

definition initMcp :: "invoke_fn \<Rightarrow> effect list" where
  "initMcp api =
     (let (logs, out) = api (ascii ''init_mcp'') None
      in Invoke (ascii ''init_mcp'') None
         # map Console
             (logs @ [case out of
                        Inr _ \<Rightarrow> LogText (ascii ''MCP initialized'')
                      | Inl error \<Rightarrow> LogError (ascii ''Failed to initialize MCP:'') error]))"

section \<open>The search rule of the specification\<close>

text \<open>
  The specification's words for \<open>search\<close> (section 4.6), used to state claim C7: an entry
  matches a query when the query is a substring of its name or of its path, letter case
  ignored (for the letters A to Z).
\<close>

definition to_lower :: "jsstring \<Rightarrow> jsstring" where
  "to_lower s = map (\<lambda>c. if 0x41 \<le> c \<and> c \<le> 0x5A then c + 0x20 else c) s"

fun contains :: "jsstring \<Rightarrow> jsstring \<Rightarrow> bool" where
  "contains [] q = (q = [])"
| "contains (c # cs) q = (take (length q) (c # cs) = q \<or> contains cs q)"

definition spec_matches :: "jsstring \<Rightarrow> jsval \<Rightarrow> bool" where
  "spec_matches query entry =
     (case entry of
        JObj kv \<Rightarrow>
          (case (map_of kv (ascii ''name''), map_of kv (ascii ''path'')) of
             (Some (JStr n), Some (JStr p)) \<Rightarrow>
               contains (to_lower n) (to_lower query) \<or> contains (to_lower p) (to_lower query)
           | _ \<Rightarrow> False)
      | _ \<Rightarrow> False)"

section \<open>Sessions and backends used as examples\<close>

text \<open>
  \<open>chromium\<close>: the wording of an engine. \<open>awaiting_approval\<close>: the operator types
  \<open>go\<close> into the fresh application and submits, and the mock answers with a draw of
  \<open>0.8\<close>. \<open>offline\<close>: a backend whose every call is rejected with an \<open>Error\<close>.
  \<open>rejecting_null\<close>: a backend whose every call is rejected with \<open>null\<close>.
\<close>

abbreviation chromium :: "fault \<Rightarrow> jsstring" where
  "chromium \<equiv>
     (\<lambda>f. case f of
        Not_primitive \<Rightarrow> ascii ''Cannot convert object to primitive value''
      | Nullish_read \<Rightarrow> ascii ''Cannot read properties of null'')"

abbreviation awaiting_approval :: App where
  "awaiting_approval \<equiv>
     fst (handleSubmit chromium Map.empty (invoke (4 / 5)) 1 1 2 2
            (setInputValue (ascii ''go'') (App_initial 0)))"

abbreviation offline :: invoke_fn where
  "offline \<equiv> (\<lambda>command args. ([], Inl (Error_object (ascii ''offline''))))"

abbreviation rejecting_null :: invoke_fn where
  "rejecting_null \<equiv> (\<lambda>command args. ([], Inl (Thrown JNull)))"

section \<open>Basic facts\<close>

lemma all_dropWhile: "(\<forall>x\<in>set (dropWhile P s). P x) \<longleftrightarrow> (\<forall>x\<in>set s. P x)"
  by (induction s) auto

lemma trim_Nil_iff: "trim s = [] \<longleftrightarrow> (\<forall>c\<in>set s. is_whitespace c)"
  by (simp add: trim_def all_dropWhile)

lemma update_first_fields [simp]:
  "messages (update_first ops st s) = messages s"
  "inputValue (update_first ops st s) = inputValue s"
  "isLoading (update_first ops st s) = isLoading s"
  "pendingApproval (update_first ops st s) = pendingApproval s"
  "mcpServers (update_first ops st s) = mcpServers s"
  by (simp_all add: update_first_def updateOperationStatus_def split: list.split)

lemma update_first_previews:
  "operationPreviews (update_first ops st s) =
     (case ops of
        [] \<Rightarrow> operationPreviews s
      | op # _ \<Rightarrow>
          map (\<lambda>p. if id_op p = id_op op then p\<lparr>status := st\<rparr> else p) (operationPreviews s))"
  by (simp add: update_first_def updateOperationStatus_def split: list.split)

lemma is_whitespace_simps:
  "is_whitespace 0x20" "is_whitespace 0x09" "is_whitespace 0x3000"
  by (simp_all add: is_whitespace_def)

lemma ToString_throws:
  "ToString v = Inl e \<Longrightarrow> e = TypeError Not_primitive"
  "ToString_elements xs = Inl e \<Longrightarrow> e = TypeError Not_primitive"
  by (induction v and xs arbitrary: e and e rule: ToString_ToString_elements.induct)
    (auto split: sum.splits if_splits)

lemma template_JStr [simp]: "template pre (JStr t) post = Inr (JStr (pre @ t @ post))"
  by (simp add: template_def)

lemma template_cases:
  "(\<exists>t. template pre v post = Inr (JStr (pre @ t @ post)))
   \<or> template pre v post = Inl (TypeError Not_primitive)"
  by (cases "ToString v") (auto simp add: template_def dest: ToString_throws(1))

lemma message_text_simps [simp]:
  "message_text engine (Error_object m) = Inr m"
  "message_text engine (TypeError f) = Inr (engine f)"
  "message_text engine (Thrown JNull) = Inl (TypeError Nullish_read)"
  "message_text engine (Thrown JUndefined) = Inl (TypeError Nullish_read)"
  "message_text engine (Thrown (JStr t)) = Inr (ascii ''undefined'')"
  by (simp_all add: message_text_def get_message_def)

lemma handleSubmit_settle_rejected:
  "message_text engine error = Inr text \<Longrightarrow>
   handleSubmit_settle engine now date ops (Inl error) s =
     ((update_first ops Failed
         (s\<lparr>messages := messages s @
              [\<lparr>id_msg = show_int (now + 1),
                content = [0x9519, 0x8BEF, 0x003A, 0x0020] @ text,
                role = Assistant, timestamp = date\<rparr>]\<rparr>))\<lparr>isLoading := False\<rparr>,
      [Console (LogError (ascii ''Error processing message:'') error)])"
  by (simp add: handleSubmit_settle_def Let_def)

lemma handleSubmit_settle_escapes:
  "message_text engine error = Inl e \<Longrightarrow>
   handleSubmit_settle engine now date ops (Inl error) s =
     (s\<lparr>isLoading := False\<rparr>,
      [Console (LogError (ascii ''Error processing message:'') error), Throw e])"
  by (simp add: handleSubmit_settle_def Let_def)

lemma handleSubmit_settle_pending:
  "handleSubmit_settle engine now date ops (Inr (JStr (ascii ''PENDING_APPROVAL''))) s =
     (s\<lparr>pendingApproval := Some
          \<lparr>id_pa = show_int now,
           toolName = ascii ''dangerous_operation'',
           arguments = JObj [(ascii ''path'', JStr (ascii ''/example/path''))],
           description =
             [0x6267, 0x884C, 0x6F5C, 0x5728, 0x5371, 0x9669, 0x64CD, 0x4F5C,
              0x003A, 0x0020, 0x5220, 0x9664, 0x0020] @ ascii ''/example/path''\<rparr>,
        isLoading := False\<rparr>,
      [])"
  by (simp add: handleSubmit_settle_def Let_def)

lemma handleSubmit_settle_isLoading:
  "isLoading (fst (handleSubmit_settle engine now date ops out s)) = False"
  by (simp add: handleSubmit_settle_def Let_def split: sum.split)

lemma handleSubmit_settle_resolved_effects:
  "snd (handleSubmit_settle engine now date ops (Inr result) s) = []"
  by (simp add: handleSubmit_settle_def Let_def)

lemma handleApproveOperation_catch_text:
  "message_text engine error = Inr text \<Longrightarrow>
   handleApproveOperation_catch engine now date ops error s =
     (update_first ops Failed
        (s\<lparr>messages := messages s @
             [\<lparr>id_msg = show_int now,
               content = [0x6279, 0x51C6, 0x64CD, 0x4F5C, 0x5931, 0x8D25, 0x003A, 0x0020] @ text,
               role = Assistant, timestamp = date\<rparr>]\<rparr>),
      [Console (LogError (ascii ''Error approving operation:'') error)])"
  by (simp add: handleApproveOperation_catch_def)

lemma handleApproveOperation_catch_escapes:
  "message_text engine error = Inl e \<Longrightarrow>
   handleApproveOperation_catch engine now date ops error s =
     (s, [Console (LogError (ascii ''Error approving operation:'') error), Throw e])"
  by (simp add: handleApproveOperation_catch_def)

lemma handleApproveOperation_settle_rejected:
  "handleApproveOperation_settle engine now date ops (Inl error) s =
     handleApproveOperation_catch engine now date ops error s"
  by (simp add: handleApproveOperation_settle_def)

lemma handleApproveOperation_settle_resolved:
  "ToString result = Inr text \<Longrightarrow>
   handleApproveOperation_settle engine now date ops (Inr result) s =
     (update_first ops Completed
        (s\<lparr>messages := messages s @
             [\<lparr>id_msg = show_int now,
               content = [0x64CD, 0x4F5C, 0x7ED3, 0x679C, 0x003A, 0x0020] @ text,
               role = Assistant, timestamp = date\<rparr>],
           pendingApproval := None\<rparr>),
      [])"
  by (simp add: handleApproveOperation_settle_def)

lemma handleApproveOperation_run:
  "pendingApproval s = Some pa \<Longrightarrow>
   api (ascii ''approve_tool_call'')
       (Some [(ascii ''toolName'', JStr (toolName pa)),
              (ascii ''arguments'', stringify (arguments pa))]) = (logs, out) \<Longrightarrow>
   handleApproveOperation engine stringify api now date s =
     (fst (handleApproveOperation_settle engine now date (operationPreviews s) out s),
      Invoke (ascii ''approve_tool_call'')
        (Some [(ascii ''toolName'', JStr (toolName pa)),
               (ascii ''arguments'', stringify (arguments pa))])
      # map Console logs
      @ snd (handleApproveOperation_settle engine now date (operationPreviews s) out s))"
  by (simp add: handleApproveOperation_def handleApproveOperation_request_def case_prod_beta)

lemma handleSubmit_run:
  "trim (inputValue s) \<noteq> [] \<Longrightarrow> \<not> isLoading s \<Longrightarrow>
   api (fst (handleSubmit_request env s)) (snd (handleSubmit_request env s)) = (logs, out) \<Longrightarrow>
   handleSubmit engine env api now date now' date' s =
     (fst (handleSubmit_settle engine now' date' (operationPreviews s) out
             (the (handleSubmit_start now date s))),
      PreventDefault
      # Invoke (fst (handleSubmit_request env s)) (snd (handleSubmit_request env s))
      # map Console logs
      @ snd (handleSubmit_settle engine now' date' (operationPreviews s) out
               (the (handleSubmit_start now date s))))"
  by (simp add: handleSubmit_def handleSubmit_start_def case_prod_beta)

lemma handleSubmit_start_Some:
  "trim (inputValue s) \<noteq> [] \<Longrightarrow> \<not> isLoading s \<Longrightarrow>
   handleSubmit_start now date s =
     Some (update_first (operationPreviews s) Executing
             (s\<lparr>messages := messages s @
                  [\<lparr>id_msg = show_int now, content = inputValue s, role = User,
                    timestamp = date\<rparr>],
                inputValue := [],
                isLoading := True\<rparr>))"
  by (simp add: handleSubmit_start_def)

lemma awaiting_approval_eq:
  "awaiting_approval =
     \<lparr>messages =
        [\<lparr>id_msg = ascii ''1'',
          content = [0x4F60, 0x597D, 0xFF01, 0x6211, 0x662F] @ ascii ''Local Pilot''
            @ [0x52A9, 0x624B, 0xFF0C, 0x6211, 0x53EF, 0x4EE5, 0x5E2E, 0x52A9, 0x4F60, 0x4E0E,
               0x672C, 0x5730, 0x7CFB, 0x7EDF, 0x4EA4, 0x4E92, 0x3002],
          role = Assistant, timestamp = 0\<rparr>,
         \<lparr>id_msg = ascii ''1'', content = ascii ''go'', role = User, timestamp = 1\<rparr>],
      inputValue = [],
      isLoading = False,
      operationPreviews =
        [\<lparr>id_op = ascii ''op1'', title = [0x6587, 0x4EF6, 0x8BFB, 0x53D6],
          description_op = [0x8BFB, 0x53D6, 0x672C, 0x5730, 0x6587, 0x4EF6, 0x5185, 0x5BB9],
          status = Executing\<rparr>,
         \<lparr>id_op = ascii ''op2'', title = [0x547D, 0x4EE4, 0x6267, 0x884C],
          description_op = [0x6267, 0x884C, 0x672C, 0x5730] @ ascii ''shell'' @ [0x547D, 0x4EE4],
          status = Pending\<rparr>],
      pendingApproval = Some
        \<lparr>id_pa = ascii ''2'',
         toolName = ascii ''dangerous_operation'',
         arguments = JObj [(ascii ''path'', JStr (ascii ''/example/path''))],
         description =
           [0x6267, 0x884C, 0x6F5C, 0x5728, 0x5371, 0x9669, 0x64CD, 0x4F5C,
            0x003A, 0x0020, 0x5220, 0x9664, 0x0020] @ ascii ''/example/path''\<rparr>,
      mcpServers = [ascii ''Filesystem'', ascii ''SQLite'']\<rparr>"
  by (simp add: handleSubmit_def handleSubmit_start_def handleSubmit_request_def
      handleSubmit_settle_def invoke_def setInputValue_def App_initial_def ascii_def trim_def
      is_whitespace_def update_first_def updateOperationStatus_def show_int_def or_else_def)

lemma awaiting_approval_pending:
  "pendingApproval awaiting_approval = Some
     \<lparr>id_pa = ascii ''2'',
      toolName = ascii ''dangerous_operation'',
      arguments = JObj [(ascii ''path'', JStr (ascii ''/example/path''))],
      description =
        [0x6267, 0x884C, 0x6F5C, 0x5728, 0x5371, 0x9669, 0x64CD, 0x4F5C,
         0x003A, 0x0020, 0x5220, 0x9664, 0x0020] @ ascii ''/example/path''\<rparr>"
  by (simp add: awaiting_approval_eq)

lemma handleSubmit_pending:
  assumes "trim (inputValue s) \<noteq> []" and "\<not> isLoading s"
    and "snd (api (fst (handleSubmit_request env s)) (snd (handleSubmit_request env s)))
           = Inr (JStr (ascii ''PENDING_APPROVAL''))"
  shows "pendingApproval (fst (handleSubmit engine env api now date now' date' s)) = Some
     \<lparr>id_pa = show_int now',
      toolName = ascii ''dangerous_operation'',
      arguments = JObj [(ascii ''path'', JStr (ascii ''/example/path''))],
      description =
        [0x6267, 0x884C, 0x6F5C, 0x5728, 0x5371, 0x9669, 0x64CD, 0x4F5C,
         0x003A, 0x0020, 0x5220, 0x9664, 0x0020] @ ascii ''/example/path''\<rparr>"
proof -
  obtain logs where
    "api (fst (handleSubmit_request env s)) (snd (handleSubmit_request env s))
       = (logs, Inr (JStr (ascii ''PENDING_APPROVAL'')))"
    using assms(3) by (metis prod.collapse)
  from handleSubmit_run [where api = api and engine = engine, OF assms(1,2) this]
  show ?thesis
    by (simp add: handleSubmit_settle_pending)
qed

lemma handleSubmit_request_command:
  "fst (handleSubmit_request env s) = ascii ''process_user_message''"
  by (simp add: handleSubmit_request_def)

lemma handleApproveOperation_fields [simp]:
  "isLoading (fst (handleApproveOperation engine stringify api now date s)) = isLoading s"
  "inputValue (fst (handleApproveOperation engine stringify api now date s)) = inputValue s"
  "mcpServers (fst (handleApproveOperation engine stringify api now date s)) = mcpServers s"
  by (simp_all add: handleApproveOperation_def handleApproveOperation_request_def
      handleApproveOperation_settle_def handleApproveOperation_catch_def case_prod_beta
      split: option.split sum.split)

lemma handleRejectOperation_fields [simp]:
  "isLoading (fst (handleRejectOperation now date s)) = isLoading s"
  "pendingApproval (fst (handleRejectOperation now date s)) = None"
  by (simp_all add: handleRejectOperation_def)

lemma setInputValue_fields [simp]:
  "inputValue (setInputValue v s) = v"
  "isLoading (setInputValue v s) = isLoading s"
  "pendingApproval (setInputValue v s) = pendingApproval s"
  "messages (setInputValue v s) = messages s"
  "operationPreviews (setInputValue v s) = operationPreviews s"
  by (simp_all add: setInputValue_def)

lemma invoke_console:
  "fst (invoke random command args) = [Log (ascii ''Mock Tauri invoke: '' @ command) args]"
  by (simp add: invoke_def)

lemma invoke_approve_tool_call:
  "snd (invoke random (ascii ''approve_tool_call'') args) =
     template (ascii ''Tool call '') (get_prop args (ascii ''toolName''))
       (ascii '' approved and executed'')"
  by (simp add: invoke_def ascii_def)

lemma invoke_process_user_message:
  "snd (invoke random (ascii ''process_user_message'') args) =
     (if 7 / 10 < random then Inr (JStr (ascii ''PENDING_APPROVAL''))
      else template (ascii ''Processed message: '' @ [0x0022])
             (get_prop args (ascii ''message'')) [0x0022])"
  by (simp add: invoke_def ascii_def)

lemma invoke_search_local_files:
  "snd (invoke random (ascii ''search_local_files'') args) = Inr (JArr mock_files)"
  by (simp add: invoke_def ascii_def)

lemma get_prop_first [simp]: "get_prop (Some ((k, v) # rest)) k = v"
  by (simp add: get_prop_def)

lemma get_prop_toolName [simp]:
  "get_prop (Some [(ascii ''toolName'', v), (ascii ''arguments'', a)]) (ascii ''toolName'') = v"
  by simp

lemma awaiting_approval_idle: "\<not> isLoading awaiting_approval"
  by (simp add: awaiting_approval_eq)

lemma trim_on: "trim (ascii ''on'') \<noteq> []"
  by (simp add: trim_def ascii_def is_whitespace_def)

lemma trim_go: "trim (inputValue (setInputValue (ascii ''go'') (App_initial 0))) \<noteq> []"
  by (simp add: trim_def ascii_def is_whitespace_def)

lemma fresh_idle: "\<not> isLoading (setInputValue (ascii ''go'') (App_initial 0))"
  by (simp add: App_initial_def)

lemma initMcp_invocations:
  "invocations (initMcp api) = [(ascii ''init_mcp'', None)]"
  by (simp add: initMcp_def invocations_def case_prod_beta)

lemma processed_not_sentinel:
  "ascii ''Processed message: '' @ rest \<noteq> ascii ''PENDING_APPROVAL''"
  by (simp add: ascii_def)

lemma handleSubmit_fst_mock:
  "fst (handleSubmit engine env (invoke random) now date now' date' s) =
     (case handleSubmit_start now date s of
        None \<Rightarrow> s
      | Some s1 \<Rightarrow>
          fst (handleSubmit_settle engine now' date' (operationPreviews s)
                 (snd (invoke random (ascii ''process_user_message'')
                         (Some [(ascii ''message'', JStr (inputValue s))])))
                 s1))"
  by (simp add: handleSubmit_def handleSubmit_request_def case_prod_beta
      invoke_process_user_message split: option.split)

lemma console_simps [simp]:
  "console [] = []"
  "console (PreventDefault # es) = console es"
  "console (Invoke c a # es) = console es"
  "console (Console l # es) = l # console es"
  "console (Throw t # es) = console es"
  by (simp_all add: console_def)

lemma console_map_Console [simp]:
  "console (map Console ls @ es) = ls @ console es"
  "console (map Console ls) = ls"
  by (induction ls) simp_all

lemma escaped_simps [simp]:
  "escaped [] = []"
  "escaped (PreventDefault # es) = escaped es"
  "escaped (Invoke c a # es) = escaped es"
  "escaped (Console l # es) = escaped es"
  "escaped (Throw t # es) = t # escaped es"
  by (simp_all add: escaped_def)

lemma escaped_map_Console [simp]:
  "escaped (map Console ls @ es) = escaped es"
  "escaped (map Console ls) = []"
  by (induction ls) simp_all

section \<open>Properties of the mock backend\<close>

text \<open>
  C1, as amended. \<open>approve_tool_call\<close> keeps no pending request and compares nothing: for
  every tool name that is a string and every argument payload it resolves to the text
  \<open>Tool call <toolName> approved and executed\<close>. Whatever the arguments are, the call
  resolves to such a text or is rejected with the \<open>TypeError\<close> of converting the tool
  name, never for a mismatch. Its one caller, \<open>handleApproveOperation\<close>, sends the
  pending approval's own tool name and its stringified arguments, so through the mock
  an accept always clears the pending approval and appends the execution result.
\<close>

theorem approve_tool_call_unchecked:
  "snd (invoke random (ascii ''approve_tool_call'')
          (Some [(ascii ''toolName'', JStr t), (ascii ''arguments'', a)])) =
     Inr (JStr (ascii ''Tool call '' @ t @ ascii '' approved and executed''))
   \<and> ((\<exists>t. snd (invoke random (ascii ''approve_tool_call'') args) =
             Inr (JStr (ascii ''Tool call '' @ t @ ascii '' approved and executed'')))
        \<or> snd (invoke random (ascii ''approve_tool_call'') args) = Inl (TypeError Not_primitive))
   \<and> handleApproveOperation_request stringify (s\<lparr>pendingApproval := Some pa\<rparr>) =
     Some (ascii ''approve_tool_call'',
           Some [(ascii ''toolName'', JStr (toolName pa)),
                 (ascii ''arguments'', stringify (arguments pa))])
   \<and> pendingApproval
       (fst (handleApproveOperation engine stringify (invoke random) now date
               (s\<lparr>pendingApproval := Some pa\<rparr>))) = None
   \<and> messages
       (fst (handleApproveOperation engine stringify (invoke random) now date
               (s\<lparr>pendingApproval := Some pa\<rparr>))) =
     messages s @
     [\<lparr>id_msg = show_int now,
       content = [0x64CD, 0x4F5C, 0x7ED3, 0x679C, 0x003A, 0x0020]
         @ ascii ''Tool call '' @ toolName pa @ ascii '' approved and executed'',
       role = Assistant, timestamp = date\<rparr>]"
proof -
  let ?s = "s\<lparr>pendingApproval := Some pa\<rparr>"
  let ?args = "Some [(ascii ''toolName'', JStr (toolName pa)),
                     (ascii ''arguments'', stringify (arguments pa))]"
  let ?result = "JStr (ascii ''Tool call '' @ toolName pa @ ascii '' approved and executed'')"
  have pending: "pendingApproval ?s = Some pa"
    by simp
  have "snd (invoke random (ascii ''approve_tool_call'') ?args) = Inr ?result"
    by (simp add: invoke_approve_tool_call)
  then have "invoke random (ascii ''approve_tool_call'') ?args =
          (fst (invoke random (ascii ''approve_tool_call'') ?args), Inr ?result)"
    by (metis prod.collapse)
  from handleApproveOperation_run [where api = "invoke random" and stringify = stringify
      and engine = engine and now = now and date = date, OF pending this]
  have run: "fst (handleApproveOperation engine stringify (invoke random) now date ?s) =
      fst (handleApproveOperation_settle engine now date (operationPreviews ?s) (Inr ?result) ?s)"
    by simp
  have converts: "ToString ?result
      = Inr (ascii ''Tool call '' @ toolName pa @ ascii '' approved and executed'')"
    by simp
  show ?thesis
    using template_cases [of "ascii ''Tool call ''" "get_prop args (ascii ''toolName'')"
        "ascii '' approved and executed''"]
    by (simp add: run handleApproveOperation_settle_resolved [OF converts]
        invoke_approve_tool_call handleApproveOperation_request_def)
qed

text \<open>
  C1 as stated fails: while an approval for \<open>dangerous_operation\<close> is pending, the call
  with tool name \<open>shell_executor\<close> and payload \<open>{}\<close> resolves to an execution result.
\<close>

theorem approve_tool_call_counterexample:
  "map_option toolName (pendingApproval awaiting_approval) = Some (ascii ''dangerous_operation'')
   \<and> snd (invoke (1 / 2) (ascii ''approve_tool_call'')
            (Some [(ascii ''toolName'', JStr (ascii ''shell_executor'')),
                   (ascii ''arguments'', JStr (ascii ''{}''))]))
     = Inr (JStr (ascii ''Tool call shell_executor approved and executed''))"
  by (simp add: awaiting_approval_pending invoke_approve_tool_call)
    (simp add: ascii_def)

text \<open>
  C2, as amended. A submission through the mock writes one console line, the command
  name with the whole argument record, which holds the \<open>apiKey\<close> as it was configured;
  a submission that returns at once writes none. The state the submission ends in is
  the same for every configuration.
\<close>

theorem apiKey_in_console:
  "console (snd (handleSubmit engine env (invoke random) now date now' date' s)) =
     (if trim (inputValue s) = [] \<or> isLoading s then []
      else [Log (ascii ''Mock Tauri invoke: process_user_message'')
              (Some [(ascii ''message'', JStr (inputValue s)),
                     (ascii ''apiKey'', JStr (or_else (env (ascii ''ANTHROPIC_API_KEY'')) [])),
                     (ascii ''apiBase'',
                        JStr (or_else (env (ascii ''API_BASE''))
                                (ascii ''https://api.anthropic.com''))),
                     (ascii ''modelName'',
                        JStr (or_else (env (ascii ''MODEL_NAME''))
                                (ascii ''claude-3-5-sonnet-20241022'')))])])
   \<and> fst (handleSubmit engine env (invoke random) now date now' date' s)
     = fst (handleSubmit engine env' (invoke random) now date now' date' s)"
proof
  have out: "\<exists>r. snd (invoke random (fst (handleSubmit_request env s))
                         (snd (handleSubmit_request env s))) = Inr r"
    by (simp add: handleSubmit_request_def invoke_process_user_message)
  show "console (snd (handleSubmit engine env (invoke random) now date now' date' s)) =
     (if trim (inputValue s) = [] \<or> isLoading s then []
      else [Log (ascii ''Mock Tauri invoke: process_user_message'')
              (Some [(ascii ''message'', JStr (inputValue s)),
                     (ascii ''apiKey'', JStr (or_else (env (ascii ''ANTHROPIC_API_KEY'')) [])),
                     (ascii ''apiBase'',
                        JStr (or_else (env (ascii ''API_BASE''))
                                (ascii ''https://api.anthropic.com''))),
                     (ascii ''modelName'',
                        JStr (or_else (env (ascii ''MODEL_NAME''))
                                (ascii ''claude-3-5-sonnet-20241022'')))])])"
  proof (cases "trim (inputValue s) = [] \<or> isLoading s")
    case True
    then show ?thesis
      by (auto simp add: handleSubmit_def handleSubmit_start_def)
  next
    case False
    obtain r where r: "snd (invoke random (fst (handleSubmit_request env s))
                              (snd (handleSubmit_request env s))) = Inr r"
      using out by blast
    have "invoke random (fst (handleSubmit_request env s)) (snd (handleSubmit_request env s))
            = ([Log (ascii ''Mock Tauri invoke: '' @ fst (handleSubmit_request env s))
                  (snd (handleSubmit_request env s))], Inr r)"
      using r invoke_console [of random "fst (handleSubmit_request env s)"
          "snd (handleSubmit_request env s)"]
      by (metis prod.collapse)
    from handleSubmit_run [where api = "invoke random" and env = env and engine = engine,
        OF _ _ this] False
    show ?thesis
      by (simp add: handleSubmit_settle_resolved_effects handleSubmit_request_def ascii_def)
  qed
  show "fst (handleSubmit engine env (invoke random) now date now' date' s)
     = fst (handleSubmit engine env' (invoke random) now date now' date' s)"
    by (simp add: handleSubmit_fst_mock)
qed

text \<open>
  C2 as stated fails: two configurations that differ in \<open>ANTHROPIC_API_KEY\<close> only give
  different console output.
\<close>

theorem apiKey_in_console_counterexample:
  "console (snd (handleSubmit chromium
                   (Map.empty(ascii ''ANTHROPIC_API_KEY'' \<mapsto> ascii ''sk-A''))
                   (invoke (1 / 2)) 1 1 2 2 (setInputValue (ascii ''go'') (App_initial 0))))
   \<noteq> console (snd (handleSubmit chromium
                   (Map.empty(ascii ''ANTHROPIC_API_KEY'' \<mapsto> ascii ''sk-B''))
                   (invoke (1 / 2)) 1 1 2 2 (setInputValue (ascii ''go'') (App_initial 0))))"
proof -
  have "ascii ''sk-A'' \<noteq> ascii ''sk-B''" "ascii ''sk-A'' \<noteq> []" "ascii ''sk-B'' \<noteq> []"
    by (simp_all add: ascii_def)
  then show ?thesis
    using trim_go fresh_idle
    by (simp add: handleSubmit_def handleSubmit_start_def handleSubmit_request_def
        case_prod_beta invoke_console or_else_def)
qed

text \<open>
  C3, as amended. For a request whose message is a string, whatever else the request
  holds, the result of \<open>process_user_message\<close> is determined by the message and the
  number drawn from \<open>Math.random()\<close>: the sentinel \<open>PENDING_APPROVAL\<close> when the draw
  exceeds \<open>0.7\<close>, and \<open>Processed message: "<message>"\<close> otherwise. For every request
  the sentinel is the result exactly when the draw exceeds \<open>0.7\<close>: no tool name,
  argument payload or credential enters that.
\<close>

theorem process_user_message_by_draw:
  "snd (invoke random (ascii ''process_user_message'')
          (Some ((ascii ''message'', JStr m) # rest))) =
     (if 7 / 10 < random then Inr (JStr (ascii ''PENDING_APPROVAL''))
      else Inr (JStr (ascii ''Processed message: '' @ [0x0022] @ m @ [0x0022])))
   \<and> (snd (invoke random (ascii ''process_user_message'') args)
        = Inr (JStr (ascii ''PENDING_APPROVAL'')))
     = (7 / 10 < random)"
proof -
  have "template (ascii ''Processed message: '' @ [0x0022]) v [0x0022]
          \<noteq> Inr (JStr (ascii ''PENDING_APPROVAL''))" for v
    using processed_not_sentinel
    by (cases "ToString v") (simp_all add: template_def)
  then show ?thesis
    by (simp add: invoke_process_user_message)
qed

text \<open>
  C3 as stated fails: the same request gets the sentinel at a draw of \<open>0.8\<close> and a
  processed message at a draw of \<open>0.5\<close>.
\<close>

theorem process_user_message_counterexample:
  "snd (invoke (4 / 5) (ascii ''process_user_message'')
          (snd (handleSubmit_request Map.empty (setInputValue (ascii ''go'') (App_initial 0)))))
     = Inr (JStr (ascii ''PENDING_APPROVAL''))
   \<and> snd (invoke (1 / 2) (ascii ''process_user_message'')
          (snd (handleSubmit_request Map.empty (setInputValue (ascii ''go'') (App_initial 0)))))
     = Inr (JStr (ascii ''Processed message: '' @ [0x0022] @ ascii ''go'' @ [0x0022]))
   \<and> ascii ''PENDING_APPROVAL'' \<noteq> ascii ''Processed message: '' @ [0x0022] @ ascii ''go'' @ [0x0022]"
  by (simp add: invoke_process_user_message handleSubmit_request_def)
    (simp add: ascii_def)

text \<open>
  C7, as amended. \<open>search_local_files\<close> resolves to the same two entries, each with
  \<open>id\<close>, \<open>name\<close>, \<open>path\<close> and \<open>size\<close>, in the same order, for every query, and is never
  rejected.
\<close>

theorem search_local_files_fixed:
  "snd (invoke random (ascii ''search_local_files'') args) =
     Inr (JArr
       [JObj [(ascii ''id'', JStr (ascii ''1'')), (ascii ''name'', JStr (ascii ''example.txt'')),
              (ascii ''path'', JStr (ascii ''/home/user/example.txt'')),
              (ascii ''size'', JNum (Abs_safe_integer 1024))],
        JObj [(ascii ''id'', JStr (ascii ''2'')), (ascii ''name'', JStr (ascii ''document.pdf'')),
              (ascii ''path'', JStr (ascii ''/home/user/documents/document.pdf'')),
              (ascii ''size'', JNum (Abs_safe_integer 2048))]])"
  by (simp add: invoke_search_local_files mock_files_def FileInfo_def)

text \<open>
  C7 as stated fails: the query \<open>invoice\<close> matches neither entry, and both are returned.
\<close>

theorem search_local_files_counterexample:
  "snd (invoke 0 (ascii ''search_local_files'') (Some [(ascii ''query'', JStr (ascii ''invoice''))]))
     = Inr (JArr mock_files)
   \<and> length mock_files = 2
   \<and> filter (spec_matches (ascii ''invoice'')) mock_files = []"
  by (simp add: invoke_search_local_files)
    (simp add: mock_files_def FileInfo_def spec_matches_def to_lower_def ascii_def)

section \<open>Properties of the handlers\<close>

text \<open>
  C9. When the input consists of whitespace only (or is empty), or a submission is still
  loading, \<open>handleSubmit\<close> returns at once: the state is the one it was called in, the
  only effect is \<open>e.preventDefault()\<close>, and \<open>invoke\<close> is not called.
\<close>

theorem handleSubmit_returns_at_once:
  "(\<forall>c\<in>set (inputValue s). is_whitespace c) \<or> isLoading s \<Longrightarrow>
   handleSubmit engine env api now date now' date' s = (s, [PreventDefault])
   \<and> invocations (snd (handleSubmit engine env api now date now' date' s)) = []"
  by (auto simp add: handleSubmit_def handleSubmit_start_def trim_Nil_iff invocations_def)

theorem handleSubmit_returns_at_once_witness:
  "handleSubmit chromium Map.empty (invoke (4 / 5)) 1 1 2 2
     (setInputValue [0x20, 0x09, 0x3000] (App_initial 0))
   = (setInputValue [0x20, 0x09, 0x3000] (App_initial 0), [PreventDefault])
   \<and> isLoading (the (handleSubmit_start 1 1 (setInputValue (ascii ''go'') (App_initial 0))))
   \<and> handleSubmit chromium Map.empty (invoke (4 / 5)) 3 3 4 4
       (setInputValue (ascii ''on'')
          (the (handleSubmit_start 1 1 (setInputValue (ascii ''go'') (App_initial 0)))))
     = (setInputValue (ascii ''on'')
          (the (handleSubmit_start 1 1 (setInputValue (ascii ''go'') (App_initial 0)))),
        [PreventDefault])"
proof -
  let ?blank = "setInputValue [0x20, 0x09, 0x3000] (App_initial 0)"
  let ?busy = "the (handleSubmit_start 1 1 (setInputValue (ascii ''go'') (App_initial 0)))"
  have blank: "\<forall>c\<in>set (inputValue ?blank). is_whitespace c"
    by (simp add: setInputValue_def is_whitespace_simps)
  have busy: "isLoading ?busy"
    by (simp add: handleSubmit_start_def setInputValue_def App_initial_def ascii_def
        trim_def is_whitespace_def)
  then have busy': "isLoading (setInputValue (ascii ''on'') ?busy)"
    by (simp add: setInputValue_def)
  from handleSubmit_returns_at_once [of ?blank chromium "Map.empty" "invoke (4 / 5)" 1 1 2 2]
       handleSubmit_returns_at_once [of "setInputValue (ascii ''on'') ?busy" chromium
         "Map.empty" "invoke (4 / 5)" 3 3 4 4]
       blank busy busy'
  show ?thesis by blast
qed

text \<open>
  C10. \<open>handleRejectOperation\<close> calls no backend command and writes nothing to the
  console. It appends exactly one message (the rejection notice), clears the pending
  approval, and marks the first operation preview failed (with it every later preview
  that carries the same id); the other state cells keep their values.
\<close>

theorem handleRejectOperation_local:
  "snd (handleRejectOperation now date s) = []
   \<and> invocations (snd (handleRejectOperation now date s)) = []
   \<and> messages (fst (handleRejectOperation now date s)) =
       messages s @
       [\<lparr>id_msg = show_int now,
         content = [0x64CD, 0x4F5C, 0x5DF2, 0x62D2, 0x7EDD, 0x003A, 0x0020]
           @ or_else (map_option description (pendingApproval s))
               [0x672A, 0x77E5, 0x64CD, 0x4F5C],
         role = Assistant, timestamp = date\<rparr>]
   \<and> pendingApproval (fst (handleRejectOperation now date s)) = None
   \<and> operationPreviews (fst (handleRejectOperation now date s)) =
       (case operationPreviews s of
          [] \<Rightarrow> []
        | op # ops \<Rightarrow>
            op\<lparr>status := Failed\<rparr>
            # map (\<lambda>p. if id_op p = id_op op then p\<lparr>status := Failed\<rparr> else p) ops)
   \<and> inputValue (fst (handleRejectOperation now date s)) = inputValue s
   \<and> isLoading (fst (handleRejectOperation now date s)) = isLoading s
   \<and> mcpServers (fst (handleRejectOperation now date s)) = mcpServers s"
  by (simp add: handleRejectOperation_def Let_def invocations_def update_first_previews
      split: list.split)

text \<open>
  C4, as amended. The pending-approval cell holds nothing or one request (its type is
  \<open>PendingApproval | null\<close>). A submission that the backend answers with
  \<open>PENDING_APPROVAL\<close> installs a new request whether or not one is pending: a pending
  request is replaced, not kept, and the conversation gains the operator's message
  only.
\<close>

theorem second_request_replaces:
  "trim (inputValue s) \<noteq> [] \<Longrightarrow> \<not> isLoading s \<Longrightarrow>
   snd (api (fst (handleSubmit_request env s)) (snd (handleSubmit_request env s)))
     = Inr (JStr (ascii ''PENDING_APPROVAL'')) \<Longrightarrow>
   pendingApproval (fst (handleSubmit engine env api now date now' date' s)) = Some
     \<lparr>id_pa = show_int now',
      toolName = ascii ''dangerous_operation'',
      arguments = JObj [(ascii ''path'', JStr (ascii ''/example/path''))],
      description =
        [0x6267, 0x884C, 0x6F5C, 0x5728, 0x5371, 0x9669, 0x64CD, 0x4F5C,
         0x003A, 0x0020, 0x5220, 0x9664, 0x0020] @ ascii ''/example/path''\<rparr>
   \<and> messages (fst (handleSubmit engine env api now date now' date' s)) =
       messages s @
       [\<lparr>id_msg = show_int now, content = inputValue s, role = User, timestamp = date\<rparr>]"
proof -
  assume typed: "trim (inputValue s) \<noteq> []" and idle: "\<not> isLoading s"
    and answer: "snd (api (fst (handleSubmit_request env s)) (snd (handleSubmit_request env s)))
       = Inr (JStr (ascii ''PENDING_APPROVAL''))"
  obtain logs where
    "api (fst (handleSubmit_request env s)) (snd (handleSubmit_request env s))
       = (logs, Inr (JStr (ascii ''PENDING_APPROVAL'')))"
    using answer by (metis prod.collapse)
  from handleSubmit_run [where api = api and engine = engine, OF typed idle this]
  have "fst (handleSubmit engine env api now date now' date' s) =
      fst (handleSubmit_settle engine now' date' (operationPreviews s)
             (Inr (JStr (ascii ''PENDING_APPROVAL''))) (the (handleSubmit_start now date s)))"
    by simp
  then show ?thesis
    using typed idle by (simp add: handleSubmit_settle_pending handleSubmit_start_Some)
qed

theorem second_request_replaces_witness:
  "pendingApproval awaiting_approval \<noteq> None
   \<and> pendingApproval
       (fst (handleSubmit chromium Map.empty (invoke (9 / 10)) 3 3 4 4
               (setInputValue (ascii ''on'') awaiting_approval)))
     = Some
     \<lparr>id_pa = ascii ''4'',
      toolName = ascii ''dangerous_operation'',
      arguments = JObj [(ascii ''path'', JStr (ascii ''/example/path''))],
      description =
        [0x6267, 0x884C, 0x6F5C, 0x5728, 0x5371, 0x9669, 0x64CD, 0x4F5C,
         0x003A, 0x0020, 0x5220, 0x9664, 0x0020] @ ascii ''/example/path''\<rparr>"
proof -
  have "snd (invoke (9 / 10) (fst (handleSubmit_request Map.empty (setInputValue (ascii ''on'') awaiting_approval)))
          (snd (handleSubmit_request Map.empty (setInputValue (ascii ''on'') awaiting_approval))))
        = Inr (JStr (ascii ''PENDING_APPROVAL''))"
    by (simp add: handleSubmit_request_command invoke_process_user_message)
  from second_request_replaces [where s = "setInputValue (ascii ''on'') awaiting_approval"
      and api = "invoke (9 / 10)" and env = Map.empty and now = 3 and date = 3 and now' = 4
      and date' = 4 and engine = chromium, OF _ _ this]
  have "pendingApproval
       (fst (handleSubmit chromium Map.empty (invoke (9 / 10)) 3 3 4 4
               (setInputValue (ascii ''on'') awaiting_approval)))
     = Some
     \<lparr>id_pa = show_int 4,
      toolName = ascii ''dangerous_operation'',
      arguments = JObj [(ascii ''path'', JStr (ascii ''/example/path''))],
      description =
        [0x6267, 0x884C, 0x6F5C, 0x5728, 0x5371, 0x9669, 0x64CD, 0x4F5C,
         0x003A, 0x0020, 0x5220, 0x9664, 0x0020] @ ascii ''/example/path''\<rparr>"
    using trim_on awaiting_approval_idle by simp
  moreover have "show_int 4 = ascii ''4''"
    by (simp add: show_int_def ascii_def)
  ultimately show ?thesis
    by (simp add: awaiting_approval_pending)
qed

text \<open>
  C4 as stated fails: with the request of id \<open>2\<close> pending, a second submission creates
  the request of id \<open>4\<close>.
\<close>

theorem second_request_counterexample:
  "map_option id_pa (pendingApproval awaiting_approval) = Some (ascii ''2'')
   \<and> map_option id_pa
       (pendingApproval
          (fst (handleSubmit chromium Map.empty (invoke (9 / 10)) 3 3 4 4
                  (setInputValue (ascii ''on'') awaiting_approval))))
     = Some (ascii ''4'')
   \<and> ascii ''2'' \<noteq> ascii ''4''"
proof -
  have "snd (invoke (9 / 10) (fst (handleSubmit_request Map.empty (setInputValue (ascii ''on'') awaiting_approval)))
          (snd (handleSubmit_request Map.empty (setInputValue (ascii ''on'') awaiting_approval))))
        = Inr (JStr (ascii ''PENDING_APPROVAL''))"
    by (simp add: handleSubmit_request_command invoke_process_user_message)
  from handleSubmit_pending [where s = "setInputValue (ascii ''on'') awaiting_approval"
      and api = "invoke (9 / 10)" and env = Map.empty and now = 3 and date = 3 and now' = 4
      and date' = 4 and engine = chromium, OF _ _ this]
  have "map_option id_pa
       (pendingApproval
          (fst (handleSubmit chromium Map.empty (invoke (9 / 10)) 3 3 4 4
                  (setInputValue (ascii ''on'') awaiting_approval))))
     = Some (show_int 4)"
    using trim_on awaiting_approval_idle by simp
  moreover have "show_int 4 = ascii ''4''" "ascii ''2'' \<noteq> ascii ''4''"
    by (simp_all add: show_int_def ascii_def)
  ultimately show ?thesis
    by (simp add: awaiting_approval_pending)
qed

text \<open>
  C5. An operator decision clears the pending approval. An accept completes when the
  \<open>approve_tool_call\<close> call resolves and its result converts to text: then the pending
  approval is cleared and no error leaves the handler. A reject clears it in every
  state. Neither needs the application to be idle. After either decision, once no
  submission is loading, a submission that the backend answers with
  \<open>PENDING_APPROVAL\<close> creates an approval request again.
\<close>

theorem decision_clears_pending:
  "(pendingApproval s = Some pa
      \<and> snd (api (ascii ''approve_tool_call'')
                (Some [(ascii ''toolName'', JStr (toolName pa)),
                       (ascii ''arguments'', stringify (arguments pa))])) = Inr result
      \<and> ToString result = Inr str
    \<longrightarrow> pendingApproval (fst (handleApproveOperation engine stringify api now date s)) = None
        \<and> escaped (snd (handleApproveOperation engine stringify api now date s)) = []
        \<and> (\<not> isLoading s \<and> trim v \<noteq> []
             \<and> (\<forall>args. snd (api' (ascii ''process_user_message'') args)
                         = Inr (JStr (ascii ''PENDING_APPROVAL'')))
           \<longrightarrow> pendingApproval
                 (fst (handleSubmit engine env api' n d n' d'
                         (setInputValue v
                            (fst (handleApproveOperation engine stringify api now date s)))))
               \<noteq> None))
   \<and> pendingApproval (fst (handleRejectOperation now date s)) = None
   \<and> snd (handleRejectOperation now date s) = []
   \<and> (\<not> isLoading s \<and> trim v \<noteq> []
        \<and> (\<forall>args. snd (api' (ascii ''process_user_message'') args)
                    = Inr (JStr (ascii ''PENDING_APPROVAL'')))
      \<longrightarrow> pendingApproval
            (fst (handleSubmit engine env api' n d n' d'
                    (setInputValue v (fst (handleRejectOperation now date s)))))
          \<noteq> None)"
proof -
  have again:
    "pendingApproval (fst (handleSubmit engine env api' n d n' d' (setInputValue v t))) \<noteq> None"
    if "\<not> isLoading t" and "trim v \<noteq> []"
      and "\<forall>args. snd (api' (ascii ''process_user_message'') args)
                    = Inr (JStr (ascii ''PENDING_APPROVAL''))" for t
    using handleSubmit_pending [of "setInputValue v t" api' env engine n d n' d'] that
    by (simp add: handleSubmit_request_command)
  have accept:
    "pendingApproval (fst (handleApproveOperation engine stringify api now date s)) = None
     \<and> escaped (snd (handleApproveOperation engine stringify api now date s)) = []"
    if pending: "pendingApproval s = Some pa"
      and resolved: "snd (api (ascii ''approve_tool_call'')
                (Some [(ascii ''toolName'', JStr (toolName pa)),
                       (ascii ''arguments'', stringify (arguments pa))])) = Inr result"
      and converts: "ToString result = Inr str"
  proof -
    obtain logs where
      "api (ascii ''approve_tool_call'')
            (Some [(ascii ''toolName'', JStr (toolName pa)),
                   (ascii ''arguments'', stringify (arguments pa))]) = (logs, Inr result)"
      using resolved by (metis prod.collapse)
    from handleApproveOperation_run [where api = api and stringify = stringify
        and engine = engine and now = now and date = date, OF pending this]
    show ?thesis
      by (simp add: handleApproveOperation_settle_resolved [OF converts])
  qed
  show ?thesis
    using accept again [of "fst (handleApproveOperation engine stringify api now date s)"]
      again [of "fst (handleRejectOperation now date s)"]
    by (simp add: handleRejectOperation_def)
qed

theorem decision_clears_pending_witness:
  "pendingApproval awaiting_approval \<noteq> None
   \<and> pendingApproval
       (fst (handleApproveOperation chromium (\<lambda>v. JStr []) (invoke (1 / 2)) 3 3
               awaiting_approval))
       = None
   \<and> pendingApproval (fst (handleRejectOperation 3 3 awaiting_approval)) = None
   \<and> pendingApproval
       (fst (handleSubmit chromium Map.empty (invoke (4 / 5)) 5 5 6 6
               (setInputValue (ascii ''on'')
                  (fst (handleApproveOperation chromium (\<lambda>v. JStr []) (invoke (1 / 2)) 3 3
                          awaiting_approval)))))
       \<noteq> None
   \<and> pendingApproval
       (fst (handleSubmit chromium Map.empty (invoke (4 / 5)) 5 5 6 6
               (setInputValue (ascii ''on'') (fst (handleRejectOperation 3 3 awaiting_approval)))))
       \<noteq> None"
proof -
  have dangerous:
    "\<forall>args. snd (invoke (4 / 5) (ascii ''process_user_message'') args)
       = Inr (JStr (ascii ''PENDING_APPROVAL''))"
    by (simp add: invoke_process_user_message)
  have resolved:
    "snd (invoke (1 / 2) (ascii ''approve_tool_call'')
           (Some [(ascii ''toolName'', JStr (ascii ''dangerous_operation'')),
                  (ascii ''arguments'', JStr [])]))
       = Inr (JStr (ascii ''Tool call '' @ ascii ''dangerous_operation''
                    @ ascii '' approved and executed''))"
    by (simp add: invoke_approve_tool_call)
  have converts:
    "ToString (JStr (ascii ''Tool call '' @ ascii ''dangerous_operation''
                     @ ascii '' approved and executed''))
       = Inr (ascii ''Tool call '' @ ascii ''dangerous_operation''
              @ ascii '' approved and executed'')"
    by simp
  note decision_clears_pending [where s = awaiting_approval and api = "invoke (1 / 2)"
      and api' = "invoke (4 / 5)" and stringify = "\<lambda>v. JStr []" and v = "ascii ''on''"
      and engine = chromium and now = 3 and date = 3 and n = 5 and d = 5 and n' = 6
      and d' = 6 and env = Map.empty
      and pa = "\<lparr>id_pa = ascii ''2'',
      toolName = ascii ''dangerous_operation'',
      arguments = JObj [(ascii ''path'', JStr (ascii ''/example/path''))],
      description =
        [0x6267, 0x884C, 0x6F5C, 0x5728, 0x5371, 0x9669, 0x64CD, 0x4F5C,
         0x003A, 0x0020, 0x5220, 0x9664, 0x0020] @ ascii ''/example/path''\<rparr>"
      and result = "JStr (ascii ''Tool call '' @ ascii ''dangerous_operation''
                     @ ascii '' approved and executed'')"
      and str = "ascii ''Tool call '' @ ascii ''dangerous_operation''
              @ ascii '' approved and executed''"]
  with awaiting_approval_pending awaiting_approval_idle trim_on dangerous resolved converts
  show ?thesis
    by simp
qed

text \<open>
  C6, at a backend that rejects the call with \<open>null\<close>. The \<open>catch\<close> block of
  \<open>handleSubmit\<close> writes its console line and then reads \<open>.message\<close> of the caught
  value, which throws. No error notice is appended: the conversation gains the
  operator's message only. The \<open>finally\<close> block resets the loading flag, and the
  \<open>TypeError\<close> leaves the handler.
\<close>

theorem submit_null_rejection_escapes:
  "messages (fst (handleSubmit chromium Map.empty rejecting_null 1 1 2 2
                    (setInputValue (ascii ''go'') (App_initial 0)))) =
     messages (App_initial 0) @
     [\<lparr>id_msg = ascii ''1'', content = ascii ''go'', role = User, timestamp = 1\<rparr>]
   \<and> escaped (snd (handleSubmit chromium Map.empty rejecting_null 1 1 2 2
                      (setInputValue (ascii ''go'') (App_initial 0)))) =
     [TypeError Nullish_read]
   \<and> \<not> isLoading (fst (handleSubmit chromium Map.empty rejecting_null 1 1 2 2
                         (setInputValue (ascii ''go'') (App_initial 0))))"
proof -
  have one: "show_int 1 = ascii ''1''"
    by (simp add: show_int_def ascii_def)
  have "rejecting_null (fst (handleSubmit_request Map.empty
                               (setInputValue (ascii ''go'') (App_initial 0))))
          (snd (handleSubmit_request Map.empty (setInputValue (ascii ''go'') (App_initial 0))))
        = ([], Inl (Thrown JNull))"
    by simp
  from handleSubmit_run [where api = rejecting_null and engine = chromium and env = Map.empty
      and now = 1 and date = 1 and now' = 2 and date' = 2, OF trim_go fresh_idle this]
  show ?thesis
    using trim_go fresh_idle
    by (simp add: handleSubmit_settle_escapes handleSubmit_start_Some one)
qed

text \<open>
  C8, at a backend that rejects the call with \<open>null\<close>. The \<open>catch\<close> block of
  \<open>handleApproveOperation\<close> throws on reading \<open>.message\<close> before it appends anything:
  the conversation is unchanged, the pending approval keeps its value, and the
  \<open>TypeError\<close> leaves the handler.
\<close>

theorem approve_null_rejection_escapes:
  "messages (fst (handleApproveOperation chromium (\<lambda>v. JStr []) rejecting_null 3 3
                    awaiting_approval)) = messages awaiting_approval
   \<and> pendingApproval (fst (handleApproveOperation chromium (\<lambda>v. JStr []) rejecting_null 3 3
                             awaiting_approval)) = pendingApproval awaiting_approval
   \<and> escaped (snd (handleApproveOperation chromium (\<lambda>v. JStr []) rejecting_null 3 3
                      awaiting_approval)) = [TypeError Nullish_read]"
proof -
  have "rejecting_null (ascii ''approve_tool_call'')
          (Some [(ascii ''toolName'', JStr (ascii ''dangerous_operation'')),
                 (ascii ''arguments'', JStr [])]) = ([], Inl (Thrown JNull))"
    by simp
  from handleApproveOperation_run [where api = rejecting_null and engine = chromium
      and stringify = "\<lambda>v. JStr []" and now = 3 and date = 3 and s = awaiting_approval,
      OF awaiting_approval_pending] this
  show ?thesis
    by (simp add: handleApproveOperation_settle_rejected handleApproveOperation_catch_escapes)
qed

section \<open>Rejections whose message can be read\<close>

text \<open>
  When the message of the caught value can be read and converted to text, a rejected
  call is folded into the conversation: \<open>handleSubmit\<close> appends the error notice after
  the operator's message and leaves the pending approval as it was,
  \<open>handleApproveOperation\<close> appends the error notice, and no error leaves either
  handler. Whatever the outcome of the call, \<open>handleSubmit\<close> ends with the loading flag
  reset.
\<close>

lemma failure_is_folded:
  "(trim (inputValue s) \<noteq> [] \<and> \<not> isLoading s
      \<and> snd (api (fst (handleSubmit_request env s)) (snd (handleSubmit_request env s)))
          = Inl error
      \<and> message_text engine error = Inr str
    \<longrightarrow> messages (fst (handleSubmit engine env api now date now' date' s)) =
          messages s @
          [\<lparr>id_msg = show_int now, content = inputValue s, role = User, timestamp = date\<rparr>,
           \<lparr>id_msg = show_int (now' + 1),
             content = [0x9519, 0x8BEF, 0x003A, 0x0020] @ str,
             role = Assistant, timestamp = date'\<rparr>]
        \<and> pendingApproval (fst (handleSubmit engine env api now date now' date' s))
            = pendingApproval s
        \<and> escaped (snd (handleSubmit engine env api now date now' date' s)) = [])
   \<and> (trim (inputValue s) \<noteq> [] \<and> \<not> isLoading s
      \<longrightarrow> \<not> isLoading (fst (handleSubmit engine env api now date now' date' s)))
   \<and> (pendingApproval s = Some pa
      \<and> snd (api (ascii ''approve_tool_call'')
                (Some [(ascii ''toolName'', JStr (toolName pa)),
                       (ascii ''arguments'', stringify (arguments pa))])) = Inl error
      \<and> message_text engine error = Inr str
    \<longrightarrow> messages (fst (handleApproveOperation engine stringify api now date s)) =
          messages s @
          [\<lparr>id_msg = show_int now,
             content = [0x6279, 0x51C6, 0x64CD, 0x4F5C, 0x5931, 0x8D25, 0x003A, 0x0020] @ str,
             role = Assistant, timestamp = date\<rparr>]
        \<and> isLoading (fst (handleApproveOperation engine stringify api now date s)) = isLoading s
        \<and> escaped (snd (handleApproveOperation engine stringify api now date s)) = [])"
proof (intro conjI impI)
  assume a: "trim (inputValue s) \<noteq> [] \<and> \<not> isLoading s
      \<and> snd (api (fst (handleSubmit_request env s)) (snd (handleSubmit_request env s)))
          = Inl error
      \<and> message_text engine error = Inr str"
  then obtain logs where
    "api (fst (handleSubmit_request env s)) (snd (handleSubmit_request env s))
       = (logs, Inl error)"
    by (metis prod.collapse)
  with a have run: "handleSubmit engine env api now date now' date' s =
     (fst (handleSubmit_settle engine now' date' (operationPreviews s) (Inl error)
             (the (handleSubmit_start now date s))),
      PreventDefault
      # Invoke (fst (handleSubmit_request env s)) (snd (handleSubmit_request env s))
      # map Console logs
      @ snd (handleSubmit_settle engine now' date' (operationPreviews s) (Inl error)
               (the (handleSubmit_start now date s))))"
    using handleSubmit_run [where api = api and engine = engine] by blast
  from a have folded: "handleSubmit_settle engine now' date' ops (Inl error) t =
     ((update_first ops Failed
         (t\<lparr>messages := messages t @
              [\<lparr>id_msg = show_int (now' + 1),
                content = [0x9519, 0x8BEF, 0x003A, 0x0020] @ str,
                role = Assistant, timestamp = date'\<rparr>]\<rparr>))\<lparr>isLoading := False\<rparr>,
      [Console (LogError (ascii ''Error processing message:'') error)])" for ops t
    by (simp add: handleSubmit_settle_rejected)
  from a show "messages (fst (handleSubmit engine env api now date now' date' s)) =
          messages s @
          [\<lparr>id_msg = show_int now, content = inputValue s, role = User, timestamp = date\<rparr>,
           \<lparr>id_msg = show_int (now' + 1),
             content = [0x9519, 0x8BEF, 0x003A, 0x0020] @ str,
             role = Assistant, timestamp = date'\<rparr>]"
    by (simp add: run folded handleSubmit_start_Some)
  from a show "pendingApproval (fst (handleSubmit engine env api now date now' date' s))
            = pendingApproval s"
    by (simp add: run folded handleSubmit_start_Some)
  show "escaped (snd (handleSubmit engine env api now date now' date' s)) = []"
    by (simp add: run folded)
next
  assume a: "trim (inputValue s) \<noteq> [] \<and> \<not> isLoading s"
  obtain logs out where
    "api (fst (handleSubmit_request env s)) (snd (handleSubmit_request env s)) = (logs, out)"
    by (metis prod.collapse)
  with a have "fst (handleSubmit engine env api now date now' date' s) =
     fst (handleSubmit_settle engine now' date' (operationPreviews s) out
             (the (handleSubmit_start now date s)))"
    using handleSubmit_run [where api = api and engine = engine and env = env and s = s]
    by simp
  then have "isLoading (fst (handleSubmit engine env api now date now' date' s)) = False"
    by (simp add: handleSubmit_settle_isLoading)
  then show "\<not> isLoading (fst (handleSubmit engine env api now date now' date' s))"
    by simp
next
  assume a: "pendingApproval s = Some pa
      \<and> snd (api (ascii ''approve_tool_call'')
                (Some [(ascii ''toolName'', JStr (toolName pa)),
                       (ascii ''arguments'', stringify (arguments pa))])) = Inl error
      \<and> message_text engine error = Inr str"
  then obtain logs where
    "api (ascii ''approve_tool_call'')
          (Some [(ascii ''toolName'', JStr (toolName pa)),
                 (ascii ''arguments'', stringify (arguments pa))]) = (logs, Inl error)"
    by (metis prod.collapse)
  with a have run: "handleApproveOperation engine stringify api now date s =
     (fst (handleApproveOperation_settle engine now date (operationPreviews s) (Inl error) s),
      Invoke (ascii ''approve_tool_call'')
        (Some [(ascii ''toolName'', JStr (toolName pa)),
               (ascii ''arguments'', stringify (arguments pa))])
      # map Console logs
      @ snd (handleApproveOperation_settle engine now date (operationPreviews s) (Inl error) s))"
    using handleApproveOperation_run [where api = api and stringify = stringify
        and engine = engine] by blast
  from a have folded: "handleApproveOperation_settle engine now date ops (Inl error) s =
     (update_first ops Failed
        (s\<lparr>messages := messages s @
             [\<lparr>id_msg = show_int now,
               content = [0x6279, 0x51C6, 0x64CD, 0x4F5C, 0x5931, 0x8D25, 0x003A, 0x0020] @ str,
               role = Assistant, timestamp = date\<rparr>]\<rparr>),
      [Console (LogError (ascii ''Error approving operation:'') error)])" for ops
    by (simp add: handleApproveOperation_settle_rejected handleApproveOperation_catch_text)
  show "messages (fst (handleApproveOperation engine stringify api now date s)) =
          messages s @
          [\<lparr>id_msg = show_int now,
             content = [0x6279, 0x51C6, 0x64CD, 0x4F5C, 0x5931, 0x8D25, 0x003A, 0x0020] @ str,
             role = Assistant, timestamp = date\<rparr>]"
    by (simp add: run folded)
  show "isLoading (fst (handleApproveOperation engine stringify api now date s)) = isLoading s"
    by simp
  show "escaped (snd (handleApproveOperation engine stringify api now date s)) = []"
    by (simp add: run folded)
qed

lemma failure_is_folded_example:
  "messages (fst (handleSubmit chromium Map.empty offline 1 1 2 2
                    (setInputValue (ascii ''go'') (App_initial 0)))) =
     messages (App_initial 0) @
     [\<lparr>id_msg = ascii ''1'', content = ascii ''go'', role = User, timestamp = 1\<rparr>,
      \<lparr>id_msg = ascii ''3'', content = [0x9519, 0x8BEF, 0x003A, 0x0020] @ ascii ''offline'',
        role = Assistant, timestamp = 2\<rparr>]
   \<and> escaped (snd (handleSubmit chromium Map.empty offline 1 1 2 2
                      (setInputValue (ascii ''go'') (App_initial 0)))) = []
   \<and> \<not> isLoading (fst (handleSubmit chromium Map.empty offline 1 1 2 2
                         (setInputValue (ascii ''go'') (App_initial 0))))
   \<and> messages (fst (handleApproveOperation chromium (\<lambda>v. JStr []) offline 3 3
                      awaiting_approval)) =
       messages awaiting_approval @
       [\<lparr>id_msg = ascii ''3'',
         content = [0x6279, 0x51C6, 0x64CD, 0x4F5C, 0x5931, 0x8D25, 0x003A, 0x0020]
           @ ascii ''offline'',
         role = Assistant, timestamp = 3\<rparr>]"
proof -
  have fails: "snd (offline c a) = Inl (Error_object (ascii ''offline''))" for c a
    by simp
  have reads: "message_text chromium (Error_object (ascii ''offline'')) = Inr (ascii ''offline'')"
    by simp
  have digits: "show_int 1 = ascii ''1''" "show_int (2 + 1) = ascii ''3''"
    "show_int 3 = ascii ''3''"
    by (simp_all add: show_int_def ascii_def)
  note failure_is_folded [where s = "setInputValue (ascii ''go'') (App_initial 0)"
      and api = offline and env = Map.empty and error = "Error_object (ascii ''offline'')"
      and engine = chromium and str = "ascii ''offline''"
      and now = 1 and date = 1 and now' = 2 and date' = 2]
    failure_is_folded [where s = awaiting_approval and api = offline
      and stringify = "\<lambda>v. JStr []" and error = "Error_object (ascii ''offline'')"
      and engine = chromium and str = "ascii ''offline''"
      and now = 3 and date = 3]
  with trim_go fresh_idle fails reads awaiting_approval_pending show ?thesis
    by (simp add: digits)
qed

text \<open>
  A rejected \<open>approve_tool_call\<close> call never changes the pending approval. When the
  message of the caught value can be read and converted, exactly the error notice is
  appended; otherwise nothing is appended and the error leaves the handler.
\<close>

lemma approve_failure_keeps_pending:
  "pendingApproval s = Some pa \<Longrightarrow>
   snd (api (ascii ''approve_tool_call'')
          (Some [(ascii ''toolName'', JStr (toolName pa)),
                 (ascii ''arguments'', stringify (arguments pa))])) = Inl error \<Longrightarrow>
   pendingApproval (fst (handleApproveOperation engine stringify api now date s)) = Some pa
   \<and> (case message_text engine error of
        Inr str \<Rightarrow>
          messages (fst (handleApproveOperation engine stringify api now date s)) =
            messages s @
            [\<lparr>id_msg = show_int now,
              content = [0x6279, 0x51C6, 0x64CD, 0x4F5C, 0x5931, 0x8D25, 0x003A, 0x0020] @ str,
              role = Assistant, timestamp = date\<rparr>]
          \<and> escaped (snd (handleApproveOperation engine stringify api now date s)) = []
      | Inl e \<Rightarrow>
          messages (fst (handleApproveOperation engine stringify api now date s)) = messages s
          \<and> escaped (snd (handleApproveOperation engine stringify api now date s)) = [e])"
proof -
  assume pa: "pendingApproval s = Some pa"
    and out: "snd (api (ascii ''approve_tool_call'')
          (Some [(ascii ''toolName'', JStr (toolName pa)),
                 (ascii ''arguments'', stringify (arguments pa))])) = Inl error"
  obtain logs where
    "api (ascii ''approve_tool_call'')
          (Some [(ascii ''toolName'', JStr (toolName pa)),
                 (ascii ''arguments'', stringify (arguments pa))]) = (logs, Inl error)"
    using out by (metis prod.collapse)
  from handleApproveOperation_run [where api = api and stringify = stringify
      and engine = engine and now = now and date = date, OF pa this]
  show ?thesis
    by (cases "message_text engine error")
      (simp_all add: handleApproveOperation_settle_rejected handleApproveOperation_catch_text
        handleApproveOperation_catch_escapes pa)
qed

lemma approve_failure_keeps_pending_example:
  "pendingApproval (fst (handleApproveOperation chromium (\<lambda>v. JStr []) offline 3 3
                           awaiting_approval))
     = pendingApproval awaiting_approval
   \<and> pendingApproval awaiting_approval \<noteq> None
   \<and> messages (fst (handleApproveOperation chromium (\<lambda>v. JStr []) offline 3 3
                      awaiting_approval)) =
       messages awaiting_approval @
       [\<lparr>id_msg = ascii ''3'',
         content = [0x6279, 0x51C6, 0x64CD, 0x4F5C, 0x5931, 0x8D25, 0x003A, 0x0020]
           @ ascii ''offline'',
         role = Assistant, timestamp = 3\<rparr>]"
proof -
  have fails: "snd (offline c a) = Inl (Error_object (ascii ''offline''))" for c a
    by simp
  have three: "show_int 3 = ascii ''3''"
    by (simp add: show_int_def ascii_def)
  note approve_failure_keeps_pending [where s = awaiting_approval and api = offline
      and stringify = "\<lambda>v. JStr []" and now = 3 and date = 3 and engine = chromium,
      OF awaiting_approval_pending fails]
  then show ?thesis
    by (simp add: awaiting_approval_pending three)
qed

end
